theory Spec2Isabelle
  imports Main "HOL-Library.Sublist"
begin

section \<open>Data model of src/index.ts\<close>

text \<open>
  The module keeps three kinds of state: the selector cache persisted in
  \<^verbatim>\<open>ai-selector-cache.json\<close>, the process-wide \<^verbatim>\<open>tokenCache\<close>, and the environment
  variables. Everything outside the module (the file system, the identity backend, the
  Gemini endpoint, the clock) is made explicit in a \<open>world\<close> record that every
  operation takes and returns. Console output is not modelled.
\<close>

text \<open>\<^verbatim>\<open>interface SelectorCache { [pageUrl: string]: { [description: string]: string } }\<close>\<close>

type_synonym selector_cache = "string \<rightharpoonup> (string \<rightharpoonup> string)"

text \<open>\<^verbatim>\<open>interface TokenCache { token: string; timestamp: number }\<close>\<close>

record TokenCache =
  token :: string
  timestamp :: int

text \<open>\<^verbatim>\<open>interface AILocatorOptions\<close>: every field is optional.\<close>

record AILocatorOptions =
  timeout :: "int option"
  retries :: "int option"
  highlightDuration :: "int option"

text \<open>
  Exceptions. \<open>Error msg\<close> is \<^verbatim>\<open>new Error(msg)\<close> thrown by the module itself; the other
  constructors are rejections of the library calls the module awaits.
\<close>

datatype error =
    Error string
  | FsError
  | SyntaxError
  | AuthError
  | NetworkError
  | TypeError

text \<open>
  A JavaScript number as far as the module computes with one: an integer, or \<open>NaN\<close>
  (what \<^verbatim>\<open>parseInt\<close> gives for a text that does not start with a digit).
\<close>

datatype number = NaN | Finite int

text \<open>
  The cache file. Its text is represented by what \<^verbatim>\<open>JSON.parse\<close> makes of it: a text
  that does not parse, or the two-level document.
\<close>

datatype file_text = Unparseable | Json selector_cache

datatype file_state = Absent | Unreadable | Stored file_text

text \<open>The answer of the Gemini endpoint to one \<^verbatim>\<open>fetch\<close>.\<close>

record response =
  status :: nat
  statusText :: string
  retryAfter :: "string option"
  candidates :: "string list list option"

datatype fetch_result = Rejected | Response response

text \<open>What one \<^verbatim>\<open>fetch\<close> sends: the URL, the headers and the prompt in the body.\<close>

record request =
  req_url :: string
  req_headers :: "(string \<times> string) list"
  req_prompt :: string

record world =
  cache_file :: file_state
  fs_writable :: bool
  env :: "string \<Rightarrow> string option"
  tokenCache :: "TokenCache option"
  clock :: int
  auth_backend :: "nat \<Rightarrow> error + string"
  acquisitions :: nat
  gemini_backend :: "nat \<Rightarrow> fetch_result"
  requests :: "request list"
  slept :: "number list"

text \<open>
  \<open>cache_file\<close> is the file at \<^verbatim>\<open>CACHE_FILE_PATH\<close> and \<open>fs_writable\<close> says whether
  \<^verbatim>\<open>fs.writeFile\<close> on it succeeds; \<open>clock\<close> is \<^verbatim>\<open>Date.now()\<close> in milliseconds;
  \<open>auth_backend n\<close> is the outcome of the \<open>n\<close>-th call of \<^verbatim>\<open>auth.getAccessToken()\<close> and
  \<open>acquisitions\<close> counts these calls; \<open>gemini_backend n\<close> is the outcome of the \<open>n\<close>-th
  \<^verbatim>\<open>fetch\<close> and \<open>requests\<close> logs what was sent; \<open>slept\<close> logs the arguments of \<^verbatim>\<open>wait\<close>.
\<close>

text \<open>
  The Playwright page, through the three operations the resolver uses:
  \<^verbatim>\<open>page.url()\<close>, \<^verbatim>\<open>page.content()\<close> and \<^verbatim>\<open>page.$(selector) !== null\<close>. They are taken to
  return normally.
\<close>

record page =
  url :: string
  content :: string
  matches :: "string \<Rightarrow> bool"

text \<open>
  The document the highlight script runs in: the inline style of every element (elements
  are numbered) and \<^verbatim>\<open>document.querySelector\<close>.
\<close>

record style =
  outline :: string
  zIndex :: string
  other :: "string \<Rightarrow> string"


section \<open>Cache store\<close>

definition readFile :: "file_state \<Rightarrow> error + file_text" where
  "readFile f = (case f of Absent \<Rightarrow> Inl FsError | Unreadable \<Rightarrow> Inl FsError | Stored t \<Rightarrow> Inr t)"

definition JSON_parse :: "file_text \<Rightarrow> error + selector_cache" where
  "JSON_parse t = (case t of Unparseable \<Rightarrow> Inl SyntaxError | Json c \<Rightarrow> Inr c)"

definition JSON_stringify :: "selector_cache \<Rightarrow> file_text" where
  "JSON_stringify c = Json c"

text \<open>
  \<^verbatim>\<open>loadCache\<close>: both awaited calls stand inside one \<^verbatim>\<open>try\<close>, whose \<^verbatim>\<open>catch\<close> returns \<^verbatim>\<open>{}\<close>.
\<close>

definition loadCache :: "file_state \<Rightarrow> error + selector_cache" where
  "loadCache f =
     (case readFile f of
        Inl e \<Rightarrow> Inr Map.empty
      | Inr data \<Rightarrow>
          (case JSON_parse data of
             Inl e \<Rightarrow> Inr Map.empty
           | Inr c \<Rightarrow> Inr c))"

text \<open>\<^verbatim>\<open>saveCache\<close>: no \<^verbatim>\<open>try\<close>; a rejected \<^verbatim>\<open>fs.writeFile\<close> propagates.\<close>

definition saveCache :: "selector_cache \<Rightarrow> world \<Rightarrow> (error + unit) \<times> world" where
  "saveCache cache w =
     (if fs_writable w
      then (Inr (), w\<lparr>cache_file := Stored (JSON_stringify cache)\<rparr>)
      else (Inl FsError, w))"

text \<open>
  \<^verbatim>\<open>wait(ms)\<close>: \<^verbatim>\<open>setTimeout\<close> treats \<open>NaN\<close> and negative delays as no delay.
\<close>

definition wait :: "number \<Rightarrow> world \<Rightarrow> world" where
  "wait ms w =
     w\<lparr>clock := clock w + (case ms of NaN \<Rightarrow> 0 | Finite n \<Rightarrow> max 0 n),
       slept := slept w @ [ms]\<rparr>"

section \<open>Credential provider\<close>

definition auth_getAccessToken :: "world \<Rightarrow> (error + string) \<times> world" where
  "auth_getAccessToken w =
     (auth_backend w (acquisitions w), w\<lparr>acquisitions := Suc (acquisitions w)\<rparr>)"

text \<open>Lines 59 to 63: the acquisition and the replacement of the cache entry.\<close>

definition refresh_token :: "int \<Rightarrow> world \<Rightarrow> (error + string) \<times> world" where
  "refresh_token currentTime w =
     (case auth_getAccessToken w of
        (Inl e, w1) \<Rightarrow> (Inl e, w1)
      | (Inr newToken, w1) \<Rightarrow>
          (Inr newToken,
           w1\<lparr>tokenCache := Some \<lparr>token = newToken, timestamp = currentTime\<rparr>\<rparr>))"

definition getValidAccessToken :: "world \<Rightarrow> (error + string) \<times> world" where
  "getValidAccessToken w =
     (let currentTime = clock w in
      case tokenCache w of
        None \<Rightarrow> refresh_token currentTime w
      | Some c \<Rightarrow>
          if currentTime - timestamp c > 59 * 60 * 1000
          then refresh_token currentTime w
          else (Inr (token c), w))"

section \<open>Model client\<close>

text \<open>White space as \<^verbatim>\<open>String.prototype.trim\<close> and \<^verbatim>\<open>parseInt\<close> skip it (its ASCII part).\<close>

definition is_space :: "char \<Rightarrow> bool" where
  "is_space c = (c \<in> set [CHR 0x09, CHR 0x0A, CHR 0x0B, CHR 0x0C, CHR 0x0D, CHR 0x20])"

definition trim :: "string \<Rightarrow> string" where
  "trim s = rev (dropWhile is_space (rev (dropWhile is_space s)))"

text \<open>
  \<^verbatim>\<open>parseInt(text)\<close> with no radix, after ECMAScript: leading white space is skipped, then
  an optional sign, then an optional \<^verbatim>\<open>0x\<close> (radix 16), then the longest run of digits of
  the radix; no digit gives \<open>NaN\<close>.
\<close>

definition digit_of :: "char \<Rightarrow> nat option" where
  "digit_of c =
     (let n = (of_char c :: nat) in
      if 48 \<le> n \<and> n \<le> 57 then Some (n - 48)
      else if 97 \<le> n \<and> n \<le> 122 then Some (n - 87)
      else if 65 \<le> n \<and> n \<le> 90 then Some (n - 55)
      else None)"

definition is_digit :: "nat \<Rightarrow> char \<Rightarrow> bool" where
  "is_digit R c = (case digit_of c of None \<Rightarrow> False | Some d \<Rightarrow> d < R)"

definition digit_val :: "char \<Rightarrow> nat" where
  "digit_val c = (case digit_of c of None \<Rightarrow> 0 | Some d \<Rightarrow> d)"

definition digits_value :: "nat \<Rightarrow> string \<Rightarrow> nat" where
  "digits_value R z = foldl (\<lambda>a c. a * R + digit_val c) 0 z"

definition parseInt :: "string \<Rightarrow> number" where
  "parseInt s =
     (let s1 = dropWhile is_space s;
          negative = (take 1 s1 = ''-'');
          s2 = (if take 1 s1 = ''-'' \<or> take 1 s1 = ''+'' then drop 1 s1 else s1);
          hex = (take 2 s2 = ''0x'' \<or> take 2 s2 = ''0X'');
          R = (if hex then 16 else 10);
          s3 = (if hex then drop 2 s2 else s2);
          z = takeWhile (is_digit R) s3
      in if z = [] then NaN
         else Finite ((if negative then - 1 else 1) * int (digits_value R z)))"

text \<open>The product of a number and an integer: \<open>NaN\<close> stays \<open>NaN\<close>.\<close>

definition number_times :: "number \<Rightarrow> int \<Rightarrow> number" where
  "number_times x k = (case x of NaN \<Rightarrow> NaN | Finite n \<Rightarrow> Finite (n * k))"

text \<open>A JavaScript string is truthy when it is defined and not empty.\<close>

definition truthy :: "string option \<Rightarrow> bool" where
  "truthy v = (case v of None \<Rightarrow> False | Some s \<Rightarrow> s \<noteq> [])"

text \<open>\<^verbatim>\<open>a || b\<close> on an optional string and a string.\<close>

definition or_else :: "string option \<Rightarrow> string \<Rightarrow> string" where
  "or_else v d = (case v of None \<Rightarrow> d | Some s \<Rightarrow> if s = [] then d else s)"

text \<open>An environment variable inside a template literal: an unset one prints as \<^verbatim>\<open>undefined\<close>.\<close>

definition interpolate :: "string option \<Rightarrow> string" where
  "interpolate v = (case v of None \<Rightarrow> ''undefined'' | Some s \<Rightarrow> s)"

definition key_endpoint :: "(string \<Rightarrow> string option) \<Rightarrow> string" where
  "key_endpoint e =
     ''https://generativelanguage.googleapis.com/v1beta/models/''
     @ interpolate (e ''GOOGLE_CLOUD_VERTEX_AI_MODEL'')
     @ '':generateContent?key=''
     @ interpolate (e ''GOOGLE_CLOUD_VERTEX_AI_API_KEY'')"

definition token_endpoint :: "(string \<Rightarrow> string option) \<Rightarrow> string" where
  "token_endpoint e =
     ''https://'' @ interpolate (e ''GOOGLE_CLOUD_REGION'')
     @ ''-aiplatform.googleapis.com/v1/projects/''
     @ interpolate (e ''GOOGLE_CLOUD_PROJECT_ID'')
     @ ''/locations/'' @ interpolate (e ''GOOGLE_CLOUD_REGION'')
     @ ''/publishers/google/models/''
     @ interpolate (e ''GOOGLE_CLOUD_VERTEX_AI_MODEL'')
     @ '':generateContent''"

definition fetch :: "request \<Rightarrow> world \<Rightarrow> fetch_result \<times> world" where
  "fetch rq w = (gemini_backend w (length (requests w)), w\<lparr>requests := requests w @ [rq]\<rparr>)"

definition response_ok :: "response \<Rightarrow> bool" where
  "response_ok r = (200 \<le> status r \<and> status r \<le> 299)"

text \<open>
  \<^verbatim>\<open>data.candidates[0].content.parts[0].text.trim()\<close> on the body of the response: the list
  of candidates, each the list of the texts of its parts, or \<open>None\<close> for a body of another
  shape. A missing member makes the access throw.
\<close>

definition first_text :: "string list list option \<Rightarrow> error + string" where
  "first_text b =
     (case b of
        None \<Rightarrow> Inl TypeError
      | Some [] \<Rightarrow> Inl TypeError
      | Some ([] # _) \<Rightarrow> Inl TypeError
      | Some ((t # _) # _) \<Rightarrow> Inr (trim t))"

text \<open>Lines 96 to 110 of \<^verbatim>\<open>queryGeminiAPI\<close>: what is done with the outcome of the fetch.\<close>

definition handle_response :: "fetch_result \<Rightarrow> world \<Rightarrow> (error + string) \<times> world" where
  "handle_response fr w =
     (case fr of
        Rejected \<Rightarrow> (Inl NetworkError, w)
      | Response r \<Rightarrow>
          if status r = 429 then
            (let retryAfterMs = number_times (parseInt (or_else (retryAfter r) ''30'')) 1000
             in (Inl (Error ''Gemini API request failed due to rate limiting.''),
                 wait retryAfterMs w))
          else if \<not> response_ok r then
            (Inl (Error (''Gemini API request failed: '' @ statusText r)), w)
          else (first_text (candidates r), w))"

text \<open>Lines 88 to 110: the fetch and what follows it.\<close>

definition send :: "request \<Rightarrow> world \<Rightarrow> (error + string) \<times> world" where
  "send rq w = (case fetch rq w of (fr, w1) \<Rightarrow> handle_response fr w1)"

text \<open>
  \<^verbatim>\<open>queryGeminiAPI\<close>: \<^verbatim>\<open>if (apiKey)\<close> at line 78 tests the variable for truth; only the
  \<^verbatim>\<open>else\<close> branch calls \<open>getValidAccessToken\<close>.
\<close>

definition queryGeminiAPI :: "string \<Rightarrow> world \<Rightarrow> (error + string) \<times> world" where
  "queryGeminiAPI prompt w =
     (let headers = [(''Content-Type'', ''application/json'')];
          apiKey = env w ''GOOGLE_CLOUD_VERTEX_AI_API_KEY''
      in if truthy apiKey then
           send \<lparr>req_url = key_endpoint (env w), req_headers = headers, req_prompt = prompt\<rparr> w
         else
           (case getValidAccessToken w of
              (Inl e, w1) \<Rightarrow> (Inl e, w1)
            | (Inr accessToken, w1) \<Rightarrow>
                send \<lparr>req_url = token_endpoint (env w),
                      req_headers = headers @ [(''Authorization'', ''Bearer '' @ accessToken)],
                      req_prompt = prompt\<rparr> w1))"

definition getCurrentAPIEndpoint :: "(string \<Rightarrow> string option) \<Rightarrow> string" where
  "getCurrentAPIEndpoint e =
     (if truthy (e ''GOOGLE_CLOUD_VERTEX_AI_API_KEY'')
      then ''API key based endpoint (generativelanguage.googleapis.com)''
      else ''Access token based endpoint (aiplatform.googleapis.com)'')"

section \<open>Selector resolver\<close>

text \<open>The prompt of lines 129 to 134.\<close>

definition build_prompt :: "string \<Rightarrow> string \<Rightarrow> string" where
  "build_prompt description html =
     ''Given the following description of an element on a web page and the page HTML, provide a CSS selector''
     @ '' that would likely match this element. The selector should be as specific as possible while still being likely to''
     @ '' being likely to match the described element. If you cannot determine a suitable selector, respond with ''
     @ [CHR 0x22] @ ''ERROR:''
     @ '' Unable to determine selector'' @ [CHR 0x22]
     @ '' followed by a brief explanation. Only return the selector or the error message, no other text.:''
     @ ''Description: '' @ description @ [CHR 0x0A]
     @ ''Page HTML: '' @ html"

text \<open>\<^verbatim>\<open>cache[pageUrl]?.[description]\<close>: the stored selector, if there is one.\<close>

definition cache_entry :: "selector_cache \<Rightarrow> string \<Rightarrow> string \<Rightarrow> string option" where
  "cache_entry cache pageUrl description =
     (case cache pageUrl of
        None \<Rightarrow> None
      | Some entries \<Rightarrow> entries description)"

text \<open>
  The same where the source tests it for truth (line 123): an empty string counts as no
  selector.
\<close>

definition cached_selector :: "selector_cache \<Rightarrow> string \<Rightarrow> string \<Rightarrow> string option" where
  "cached_selector cache pageUrl description =
     (case cache_entry cache pageUrl description of
        None \<Rightarrow> None
      | Some s \<Rightarrow> if s = [] then None else Some s)"

text \<open>
  The value of \<^verbatim>\<open>selector\<close> at line 154, or \<open>Continue\<close> when the iteration left through
  one of the two \<^verbatim>\<open>retries++; continue\<close>. The local variable \<^verbatim>\<open>retries\<close> of the source is
  called \<open>counter\<close> here.
\<close>

datatype candidate = Continue | Selector string

text \<open>
  Lines 128 to 151, the \<^verbatim>\<open>else\<close> branch: the model is asked; the \<^verbatim>\<open>catch\<close> takes every
  exception of \<^verbatim>\<open>queryGeminiAPI\<close>.
\<close>

definition ask_model :: "page \<Rightarrow> string \<Rightarrow> world \<Rightarrow> candidate \<times> world" where
  "ask_model pg description w =
     (case queryGeminiAPI (build_prompt description (content pg)) w of
        (Inl e, w1) \<Rightarrow> (Continue, w1)
      | (Inr response, w1) \<Rightarrow>
          if prefix ''ERROR:'' response then (Continue, w1)
          else (Selector response, w1))"

definition select_candidate ::
  "page \<Rightarrow> string \<Rightarrow> selector_cache \<Rightarrow> int \<Rightarrow> world \<Rightarrow> candidate \<times> world" where
  "select_candidate pg description cache counter w =
     (case (if counter = 0 then cached_selector cache (url pg) description else None) of
        Some s \<Rightarrow> (Selector s, w)
      | None \<Rightarrow> ask_model pg description w)"

text \<open>How one iteration of the loop ends.\<close>

datatype outcome = Return string | Throw error | Retry

text \<open>Line 160 and 161: the in-memory cache with the selector stored.\<close>

definition store_selector ::
  "selector_cache \<Rightarrow> string \<Rightarrow> string \<Rightarrow> string \<Rightarrow> selector_cache" where
  "store_selector cache pageUrl description selector =
     cache(pageUrl \<mapsto>
       ((case cache pageUrl of None \<Rightarrow> Map.empty | Some entries \<Rightarrow> entries)
          (description \<mapsto> selector)))"

text \<open>Lines 154 to 167.\<close>

definition validate ::
  "page \<Rightarrow> string \<Rightarrow> selector_cache \<Rightarrow> string \<Rightarrow> world \<Rightarrow> outcome \<times> world" where
  "validate pg description cache selector w =
     (if selector \<noteq> [] then
        (let elementExists = matches pg selector in
         if elementExists then
           (case saveCache (store_selector cache (url pg) description selector) w of
              (Inl e, w1) \<Rightarrow> (Throw e, w1)
            | (Inr u, w1) \<Rightarrow> (Return selector, w1))
         else (Retry, w))
      else (Retry, w))"

text \<open>The body of the \<^verbatim>\<open>while\<close> loop, lines 121 to 169.\<close>

definition attempt ::
  "page \<Rightarrow> string \<Rightarrow> selector_cache \<Rightarrow> int \<Rightarrow> world \<Rightarrow> outcome \<times> world" where
  "attempt pg description cache counter w =
     (case select_candidate pg description cache counter w of
        (Continue, w1) \<Rightarrow> (Retry, w1)
      | (Selector s, w1) \<Rightarrow> validate pg description cache s w1)"

text \<open>
  The loop of lines 120 to 172. It returns the result, the value of \<^verbatim>\<open>retries\<close> when the
  loop was left, and the world.
\<close>

function getAiSelector_loop ::
  "page \<Rightarrow> string \<Rightarrow> selector_cache \<Rightarrow> int \<Rightarrow> int \<Rightarrow> world
     \<Rightarrow> (error + string) \<times> int \<times> world" where
  "getAiSelector_loop pg description cache maxRetries counter w =
     (if counter < maxRetries then
        (case attempt pg description cache counter w of
           (Return selector, w1) \<Rightarrow> (Inr selector, counter, w1)
         | (Throw e, w1) \<Rightarrow> (Inl e, counter, w1)
         | (Retry, w1) \<Rightarrow>
             getAiSelector_loop pg description cache maxRetries (counter + 1) w1)
      else
        (Inl (Error (''Failed to generate a valid selector for description: '' @ description)),
         counter, w))"
  by pat_completeness auto
termination
  by (relation "measure (\<lambda>(pg, description, cache, maxRetries, counter, w). nat (maxRetries - counter))") auto

declare getAiSelector_loop.simps [simp del]

text \<open>\<^verbatim>\<open>options?.retries || 3\<close>\<close>

definition maxRetries_of :: "AILocatorOptions \<Rightarrow> int" where
  "maxRetries_of options =
     (case retries options of None \<Rightarrow> 3 | Some n \<Rightarrow> if n = 0 then 3 else n)"

definition getAiSelector_run ::
  "page \<Rightarrow> string \<Rightarrow> AILocatorOptions \<Rightarrow> world \<Rightarrow> (error + string) \<times> int \<times> world" where
  "getAiSelector_run pg description options w =
     (case loadCache (cache_file w) of
        Inl e \<Rightarrow> (Inl e, 0, w)
      | Inr cache \<Rightarrow>
          getAiSelector_loop pg description cache (maxRetries_of options) 0 w)"

definition getAiSelector ::
  "page \<Rightarrow> string \<Rightarrow> AILocatorOptions \<Rightarrow> world \<Rightarrow> (error + string) \<times> world" where
  "getAiSelector pg description options w =
     (case getAiSelector_run pg description options w of (res, n, w1) \<Rightarrow> (res, w1))"

section \<open>Page capability extension\<close>

text \<open>
  \<^verbatim>\<open>aiLocator\<close>: the locator \<^verbatim>\<open>this.locator(selector)\<close> is represented by its selector.
\<close>

definition aiLocator ::
  "page \<Rightarrow> string \<Rightarrow> AILocatorOptions \<Rightarrow> world \<Rightarrow> (error + string) \<times> world" where
  "aiLocator pg description options w = getAiSelector pg description options w"






section \<open>Concrete inputs\<close>




text \<open>A page with one heading, matched by the selector \<^verbatim>\<open>h1\<close> and by no other.\<close>

definition example_page :: page where
  "example_page =
     \<lparr>url = ''https://phil.qa'', content = ''<h1>phil.qa</h1>'', matches = (\<lambda>s. s = ''h1'')\<rparr>"

definition no_options :: AILocatorOptions where
  "no_options = \<lparr>timeout = None, retries = None, highlightDuration = None\<rparr>"

definition key_env :: "string \<Rightarrow> string option" where
  "key_env =
     [''GOOGLE_CLOUD_VERTEX_AI_MODEL'' \<mapsto> ''gemini-pro'',
      ''GOOGLE_CLOUD_VERTEX_AI_API_KEY'' \<mapsto> ''k1'']"

definition token_env :: "string \<Rightarrow> string option" where
  "token_env =
     [''GOOGLE_CLOUD_VERTEX_AI_MODEL'' \<mapsto> ''gemini-pro'',
      ''GOOGLE_CLOUD_PROJECT_ID'' \<mapsto> ''p1'',
      ''GOOGLE_CLOUD_REGION'' \<mapsto> ''us-central1'']"

definition empty_key_env :: "string \<Rightarrow> string option" where
  "empty_key_env = token_env(''GOOGLE_CLOUD_VERTEX_AI_API_KEY'' \<mapsto> [])"

definition answer :: "string \<Rightarrow> fetch_result" where
  "answer t =
     Response \<lparr>status = 200, statusText = ''OK'', retryAfter = None, candidates = Some [[t]]\<rparr>"

definition rate_limited :: "string option \<Rightarrow> fetch_result" where
  "rate_limited h =
     Response \<lparr>status = 429, statusText = ''Too Many Requests'', retryAfter = h,
               candidates = None\<rparr>"

definition example_world ::
  "file_state \<Rightarrow> bool \<Rightarrow> (string \<Rightarrow> string option) \<Rightarrow> (nat \<Rightarrow> fetch_result) \<Rightarrow> world" where
  "example_world f writable e backend =
     \<lparr>cache_file = f, fs_writable = writable, env = e, tokenCache = None, clock = 0,
      auth_backend = (\<lambda>n. Inr ''tok''), acquisitions = 0, gemini_backend = backend,
      requests = [], slept = []\<rparr>"


section \<open>Properties\<close>

text \<open>The definitions a concrete run is evaluated with.\<close>

lemmas resolver_defs =
  getAiSelector_def getAiSelector_run_def maxRetries_of_def loadCache_def readFile_def
  JSON_parse_def JSON_stringify_def getAiSelector_loop.simps attempt_def select_candidate_def
  cached_selector_def cache_entry_def ask_model_def validate_def saveCache_def
  store_selector_def

lemmas client_defs =
  queryGeminiAPI_def send_def fetch_def handle_response_def response_ok_def first_text_def
  trim_def is_space_def truthy_def or_else_def getValidAccessToken_def refresh_token_def
  auth_getAccessToken_def wait_def number_times_def

lemmas example_defs =
  example_page_def no_options_def key_env_def token_env_def empty_key_env_def answer_def
  rate_limited_def example_world_def

subsection \<open>The cache file is read without an exception\<close>


subsection \<open>What an operation leaves unchanged\<close>

lemma loadCache_returns: "\<exists>c. loadCache f = Inr c"
  by (simp add: loadCache_def readFile_def JSON_parse_def
      split: file_state.splits file_text.splits)

lemma wait_frame [simp]:
  "cache_file (wait ms w) = cache_file w" "fs_writable (wait ms w) = fs_writable w"
  "env (wait ms w) = env w" "tokenCache (wait ms w) = tokenCache w"
  "acquisitions (wait ms w) = acquisitions w" "requests (wait ms w) = requests w"
  "auth_backend (wait ms w) = auth_backend w" "gemini_backend (wait ms w) = gemini_backend w"
  by (simp_all add: wait_def)

lemma handle_response_frame [simp]:
  "cache_file (snd (handle_response fr w)) = cache_file w"
  "fs_writable (snd (handle_response fr w)) = fs_writable w"
  "env (snd (handle_response fr w)) = env w"
  "tokenCache (snd (handle_response fr w)) = tokenCache w"
  "acquisitions (snd (handle_response fr w)) = acquisitions w"
  "requests (snd (handle_response fr w)) = requests w"
  "auth_backend (snd (handle_response fr w)) = auth_backend w"
  "gemini_backend (snd (handle_response fr w)) = gemini_backend w"
  by (simp_all add: handle_response_def Let_def split: fetch_result.splits)

lemma send_frame [simp]:
  "cache_file (snd (send rq w)) = cache_file w"
  "fs_writable (snd (send rq w)) = fs_writable w"
  "env (snd (send rq w)) = env w"
  "tokenCache (snd (send rq w)) = tokenCache w"
  "acquisitions (snd (send rq w)) = acquisitions w"
  "requests (snd (send rq w)) = requests w @ [rq]"
  "auth_backend (snd (send rq w)) = auth_backend w"
  "gemini_backend (snd (send rq w)) = gemini_backend w"
  by (simp_all add: send_def fetch_def)

lemma getValidAccessToken_frame [simp]:
  "cache_file (snd (getValidAccessToken w)) = cache_file w"
  "fs_writable (snd (getValidAccessToken w)) = fs_writable w"
  "env (snd (getValidAccessToken w)) = env w"
  "requests (snd (getValidAccessToken w)) = requests w"
  "auth_backend (snd (getValidAccessToken w)) = auth_backend w"
  "gemini_backend (snd (getValidAccessToken w)) = gemini_backend w"
  by (simp_all add: getValidAccessToken_def refresh_token_def auth_getAccessToken_def Let_def
      split: option.splits sum.splits)

lemma queryGeminiAPI_frame [simp]:
  "cache_file (snd (queryGeminiAPI prompt w)) = cache_file w"
  "fs_writable (snd (queryGeminiAPI prompt w)) = fs_writable w"
  "env (snd (queryGeminiAPI prompt w)) = env w"
  "auth_backend (snd (queryGeminiAPI prompt w)) = auth_backend w"
  "gemini_backend (snd (queryGeminiAPI prompt w)) = gemini_backend w"
proof -
  obtain r w1 where g: "getValidAccessToken w = (r, w1)" by (cases "getValidAccessToken w")
  have f: "cache_file w1 = cache_file w" "fs_writable w1 = fs_writable w" "env w1 = env w"
    "auth_backend w1 = auth_backend w" "gemini_backend w1 = gemini_backend w"
    using getValidAccessToken_frame[of w] by (simp_all add: g)
  show "cache_file (snd (queryGeminiAPI prompt w)) = cache_file w"
  "fs_writable (snd (queryGeminiAPI prompt w)) = fs_writable w"
  "env (snd (queryGeminiAPI prompt w)) = env w"
  "auth_backend (snd (queryGeminiAPI prompt w)) = auth_backend w"
  "gemini_backend (snd (queryGeminiAPI prompt w)) = gemini_backend w"
    by (simp_all add: queryGeminiAPI_def Let_def g f split: sum.splits)
qed

lemma ask_model_frame [simp]:
  "cache_file (snd (ask_model pg d w)) = cache_file w"
  "fs_writable (snd (ask_model pg d w)) = fs_writable w"
  "env (snd (ask_model pg d w)) = env w"
proof -
  obtain r w1 where g: "queryGeminiAPI (build_prompt d (content pg)) w = (r, w1)"
    by (cases "queryGeminiAPI (build_prompt d (content pg)) w")
  have f: "cache_file w1 = cache_file w" "fs_writable w1 = fs_writable w" "env w1 = env w"
    using queryGeminiAPI_frame[of "build_prompt d (content pg)" w] by (simp_all add: g)
  show "cache_file (snd (ask_model pg d w)) = cache_file w"
  "fs_writable (snd (ask_model pg d w)) = fs_writable w"
  "env (snd (ask_model pg d w)) = env w"
    by (simp_all add: ask_model_def g f split: sum.splits)
qed

lemma select_candidate_frame [simp]:
  "cache_file (snd (select_candidate pg d cache r w)) = cache_file w"
  "fs_writable (snd (select_candidate pg d cache r w)) = fs_writable w"
  "env (snd (select_candidate pg d cache r w)) = env w"
  by (simp_all add: select_candidate_def split: option.splits)

subsection \<open>One attempt, the loop, one call\<close>

lemma validate_eq:
  "validate pg d cache s w =
     (if s \<noteq> [] \<and> matches pg s then
        (if fs_writable w
         then (Return s, w\<lparr>cache_file := Stored (Json (store_selector cache (url pg) d s))\<rparr>)
         else (Throw FsError, w))
      else (Retry, w))"
  by (simp add: validate_def saveCache_def JSON_stringify_def Let_def)

lemma attempt_outcome:
  assumes "attempt pg d cache r w = (out, w')"
  shows "fs_writable w' = fs_writable w \<and>
     ((out = Retry \<and> cache_file w' = cache_file w)
      \<or> (\<exists>s. out = Return s \<and> s \<noteq> [] \<and> matches pg s \<and> fs_writable w
            \<and> cache_file w' = Stored (Json (store_selector cache (url pg) d s)))
      \<or> (out = Throw FsError \<and> \<not> fs_writable w \<and> cache_file w' = cache_file w))"
proof -
  obtain c w1 where sc: "select_candidate pg d cache r w = (c, w1)"
    by (cases "select_candidate pg d cache r w")
  have f: "cache_file w1 = cache_file w" "fs_writable w1 = fs_writable w"
    using select_candidate_frame[of pg d cache r w] by (simp_all add: sc)
  show ?thesis
  proof (cases c)
    case Continue
    with assms sc f show ?thesis by (simp add: attempt_def)
  next
    case (Selector s)
    with assms sc have "validate pg d cache s w1 = (out, w')" by (simp add: attempt_def)
    with f show ?thesis by (auto simp: validate_eq split: if_splits)
  qed
qed

lemma loop_outcome:
  "getAiSelector_loop pg d cache m r w = (res, n, w') \<Longrightarrow>
   fs_writable w' = fs_writable w \<and>
     ((res = Inl (Error (''Failed to generate a valid selector for description: '' @ d))
         \<and> n = max r m \<and> cache_file w' = cache_file w)
      \<or> (\<exists>s. res = Inr s \<and> s \<noteq> [] \<and> matches pg s \<and> r \<le> n \<and> n < m \<and> fs_writable w
            \<and> cache_file w' = Stored (Json (store_selector cache (url pg) d s)))
      \<or> (res = Inl FsError \<and> r \<le> n \<and> n < m \<and> \<not> fs_writable w \<and> cache_file w' = cache_file w))"
proof (induction pg d cache m r w rule: getAiSelector_loop.induct)
  case (1 pg d cache m r w)
  show ?case
  proof (cases "r < m")
    case False
    with "1.prems" show ?thesis by (simp add: getAiSelector_loop.simps)
  next
    case True
    obtain out w1 where a: "attempt pg d cache r w = (out, w1)"
      by (cases "attempt pg d cache r w")
    note ao = attempt_outcome[OF a]
    show ?thesis
    proof (cases out)
      case (Return s)
      with True a "1.prems" ao show ?thesis by (auto simp: getAiSelector_loop.simps)
    next
      case (Throw e)
      with True a "1.prems" ao show ?thesis by (auto simp: getAiSelector_loop.simps)
    next
      case Retry
      with True a "1.prems" have
        "getAiSelector_loop pg d cache m (r + 1) w1 = (res, n, w')"
        by (simp add: getAiSelector_loop.simps)
      from "1.IH"[OF True a[symmetric] Retry this] ao Retry True
      show ?thesis by auto
    qed
  qed
qed

lemma run_outcome:
  assumes "getAiSelector_run pg d options w = (res, n, w')"
  shows "\<exists>cache. loadCache (cache_file w) = Inr cache \<and> fs_writable w' = fs_writable w \<and>
     ((res = Inl (Error (''Failed to generate a valid selector for description: '' @ d))
         \<and> n = max 0 (maxRetries_of options) \<and> cache_file w' = cache_file w)
      \<or> (\<exists>s. res = Inr s \<and> s \<noteq> [] \<and> matches pg s \<and> 0 \<le> n \<and> n < maxRetries_of options
            \<and> fs_writable w
            \<and> cache_file w' = Stored (Json (store_selector cache (url pg) d s)))
      \<or> (res = Inl FsError \<and> 0 \<le> n \<and> n < maxRetries_of options \<and> \<not> fs_writable w
            \<and> cache_file w' = cache_file w))"
proof -
  obtain cache where lc: "loadCache (cache_file w) = Inr cache"
    using loadCache_returns by blast
  with assms have "getAiSelector_loop pg d cache (maxRetries_of options) 0 w = (res, n, w')"
    by (simp add: getAiSelector_run_def)
  from loop_outcome[OF this] lc show ?thesis by blast
qed















subsection \<open>How an attempt ends\<close>




subsection \<open>What is written to the cache\<close>



subsection \<open>A second call for the same pair\<close>



subsection \<open>The token cache\<close>

text \<open>
  C4. A cached token whose age is at most 59 minutes (3540000 ms) is returned and nothing
  else happens: the world, and with it the number of acquisitions, is unchanged. With no
  cached token, or one older than 59 minutes, \<open>auth.getAccessToken\<close> is called once; the
  token it gives replaces the cache entry, stamped with the time read at the start of the
  call, and is returned; when the acquisition fails its error propagates and the cache
  entry stays as it was.
\<close>

theorem getValidAccessToken_reuse_or_refresh:
  "(\<forall>c. tokenCache w = Some c \<and> clock w - timestamp c \<le> 59 * 60 * 1000 \<longrightarrow>
        getValidAccessToken w = (Inr (token c), w))
   \<and> ((tokenCache w = None \<or> (\<exists>c. tokenCache w = Some c \<and> clock w - timestamp c > 59 * 60 * 1000)) \<longrightarrow>
        acquisitions (snd (getValidAccessToken w)) = Suc (acquisitions w)
        \<and> (\<forall>t. auth_backend w (acquisitions w) = Inr t \<longrightarrow>
              getValidAccessToken w =
                (Inr t, w\<lparr>acquisitions := Suc (acquisitions w),
                          tokenCache := Some \<lparr>token = t, timestamp = clock w\<rparr>\<rparr>))
        \<and> (\<forall>e. auth_backend w (acquisitions w) = Inl e \<longrightarrow>
              getValidAccessToken w = (Inl e, w\<lparr>acquisitions := Suc (acquisitions w)\<rparr>)))"
  by (auto simp: getValidAccessToken_def refresh_token_def auth_getAccessToken_def Let_def
      split: sum.splits)


text \<open>
  At age 3540000 ms the cached token \<^verbatim>\<open>old\<close> is reused; one millisecond later a token is
  acquired and stored.
\<close>

theorem getValidAccessToken_reuse_or_refresh_witness:
  "getValidAccessToken
     ((example_world Absent True token_env (\<lambda>n. Rejected))
        \<lparr>tokenCache := Some \<lparr>token = ''old'', timestamp = 0\<rparr>, clock := 3540000\<rparr>)
   = (Inr ''old'',
      (example_world Absent True token_env (\<lambda>n. Rejected))
        \<lparr>tokenCache := Some \<lparr>token = ''old'', timestamp = 0\<rparr>, clock := 3540000\<rparr>)
   \<and> getValidAccessToken
     ((example_world Absent True token_env (\<lambda>n. Rejected))
        \<lparr>tokenCache := Some \<lparr>token = ''old'', timestamp = 0\<rparr>, clock := 3540001\<rparr>)
   = (Inr ''tok'',
      (example_world Absent True token_env (\<lambda>n. Rejected))
        \<lparr>tokenCache := Some \<lparr>token = ''tok'', timestamp = 3540001\<rparr>, clock := 3540001,
         acquisitions := 1\<rparr>)"
  using getValidAccessToken_reuse_or_refresh
     [of "(example_world Absent True token_env (\<lambda>n. Rejected))
        \<lparr>tokenCache := Some \<lparr>token = ''old'', timestamp = 0\<rparr>, clock := 3540000\<rparr>"]
    getValidAccessToken_reuse_or_refresh
     [of "(example_world Absent True token_env (\<lambda>n. Rejected))
        \<lparr>tokenCache := Some \<lparr>token = ''old'', timestamp = 0\<rparr>, clock := 3540001\<rparr>"]
  by (simp add: example_world_def)

subsection \<open>The choice of the endpoint\<close>

lemma truthy_iff: "truthy v = (\<exists>k. v = Some k \<and> k \<noteq> [])"
  by (cases v) (simp_all add: truthy_def)

lemma query_with_key:
  assumes "truthy (env w ''GOOGLE_CLOUD_VERTEX_AI_API_KEY'')"
  shows "queryGeminiAPI prompt w =
     send \<lparr>req_url = key_endpoint (env w),
           req_headers = [(''Content-Type'', ''application/json'')],
           req_prompt = prompt\<rparr> w"
  using assms by (simp add: queryGeminiAPI_def Let_def)

lemma query_with_token:
  assumes "\<not> truthy (env w ''GOOGLE_CLOUD_VERTEX_AI_API_KEY'')"
    and "getValidAccessToken w = (Inr t, w1)"
  shows "queryGeminiAPI prompt w =
     send \<lparr>req_url = token_endpoint (env w),
           req_headers = [(''Content-Type'', ''application/json''),
                          (''Authorization'', ''Bearer '' @ t)],
           req_prompt = prompt\<rparr> w1"
  using assms by (simp add: queryGeminiAPI_def Let_def)

lemma query_without_token:
  assumes "\<not> truthy (env w ''GOOGLE_CLOUD_VERTEX_AI_API_KEY'')"
    and "getValidAccessToken w = (Inl e, w1)"
  shows "queryGeminiAPI prompt w = (Inl e, w1)"
  using assms by (simp add: queryGeminiAPI_def Let_def)

text \<open>
  C7, as the code has it. The choice is made by the truth value of the API-key variable:
  it counts as configured when it is set to a non-empty string. With such a key the one
  request of a query goes to the key endpoint with no Authorization header, no token is
  acquired and the token cache is untouched. With the variable unset or empty the query
  asks \<open>getValidAccessToken\<close>; the request goes to the token endpoint with the header
  \<^verbatim>\<open>Authorization: Bearer\<close> and that token, and when no token can be had the query fails
  with that error and sends nothing. \<open>getCurrentAPIEndpoint\<close> names the key endpoint exactly
  when the variable is set to a non-empty string.
\<close>

theorem endpoint_follows_truthiness_of_key:
  "(truthy (env w ''GOOGLE_CLOUD_VERTEX_AI_API_KEY'') \<longrightarrow>
       requests (snd (queryGeminiAPI prompt w)) =
         requests w @ [\<lparr>req_url = key_endpoint (env w),
                        req_headers = [(''Content-Type'', ''application/json'')],
                        req_prompt = prompt\<rparr>]
       \<and> acquisitions (snd (queryGeminiAPI prompt w)) = acquisitions w
       \<and> tokenCache (snd (queryGeminiAPI prompt w)) = tokenCache w)
   \<and> (\<not> truthy (env w ''GOOGLE_CLOUD_VERTEX_AI_API_KEY'') \<longrightarrow>
       (\<forall>t w1. getValidAccessToken w = (Inr t, w1) \<longrightarrow>
          requests (snd (queryGeminiAPI prompt w)) =
            requests w @ [\<lparr>req_url = token_endpoint (env w),
                           req_headers = [(''Content-Type'', ''application/json''),
                                          (''Authorization'', ''Bearer '' @ t)],
                           req_prompt = prompt\<rparr>])
       \<and> (\<forall>e w1. getValidAccessToken w = (Inl e, w1) \<longrightarrow>
          queryGeminiAPI prompt w = (Inl e, w1) \<and> requests w1 = requests w))
   \<and> (getCurrentAPIEndpoint (env w) = ''API key based endpoint (generativelanguage.googleapis.com)'')
       = truthy (env w ''GOOGLE_CLOUD_VERTEX_AI_API_KEY'')
   \<and> truthy (env w ''GOOGLE_CLOUD_VERTEX_AI_API_KEY'')
       = (\<exists>k. env w ''GOOGLE_CLOUD_VERTEX_AI_API_KEY'' = Some k \<and> k \<noteq> [])"
proof -
  have key: "requests (snd (queryGeminiAPI prompt w)) =
         requests w @ [\<lparr>req_url = key_endpoint (env w),
                        req_headers = [(''Content-Type'', ''application/json'')],
                        req_prompt = prompt\<rparr>]
       \<and> acquisitions (snd (queryGeminiAPI prompt w)) = acquisitions w
       \<and> tokenCache (snd (queryGeminiAPI prompt w)) = tokenCache w"
    if "truthy (env w ''GOOGLE_CLOUD_VERTEX_AI_API_KEY'')"
    by (simp add: query_with_key[OF that])
  have tok: "requests (snd (queryGeminiAPI prompt w)) =
            requests w @ [\<lparr>req_url = token_endpoint (env w),
                           req_headers = [(''Content-Type'', ''application/json''),
                                          (''Authorization'', ''Bearer '' @ t)],
                           req_prompt = prompt\<rparr>]"
    if "\<not> truthy (env w ''GOOGLE_CLOUD_VERTEX_AI_API_KEY'')" and g: "getValidAccessToken w = (Inr t, w1)"
    for t w1
  proof -
    have "requests w1 = requests w"
      using getValidAccessToken_frame(4)[of w] by (simp add: g)
    then show ?thesis by (simp add: query_with_token[OF that])
  qed
  have notok: "queryGeminiAPI prompt w = (Inl e, w1) \<and> requests w1 = requests w"
    if "\<not> truthy (env w ''GOOGLE_CLOUD_VERTEX_AI_API_KEY'')" and g: "getValidAccessToken w = (Inl e, w1)"
    for e w1
  proof -
    have "requests w1 = requests w"
      using getValidAccessToken_frame(4)[of w] by (simp add: g)
    then show ?thesis by (simp add: query_without_token[OF that])
  qed
  have label: "(getCurrentAPIEndpoint (env w) = ''API key based endpoint (generativelanguage.googleapis.com)'')
       = truthy (env w ''GOOGLE_CLOUD_VERTEX_AI_API_KEY'')"
    by (simp add: getCurrentAPIEndpoint_def)
  from key tok notok label truthy_iff[of "env w ''GOOGLE_CLOUD_VERTEX_AI_API_KEY''"]
  show ?thesis by blast
qed

text \<open>
  The claim as written (the key endpoint is used, and reported, exactly when the variable
  is set) fails for a variable set to the empty string: the token endpoint is reported
  and used, and a token is acquired.
\<close>

theorem empty_key_selects_token_endpoint:
  "empty_key_env ''GOOGLE_CLOUD_VERTEX_AI_API_KEY'' = Some []
   \<and> getCurrentAPIEndpoint empty_key_env = ''Access token based endpoint (aiplatform.googleapis.com)''
   \<and> requests (snd (queryGeminiAPI ''p'' (example_world Absent True empty_key_env (\<lambda>n. answer ''h1''))))
     = [\<lparr>req_url = token_endpoint empty_key_env,
          req_headers = [(''Content-Type'', ''application/json''),
                         (''Authorization'', ''Bearer tok'')],
          req_prompt = ''p''\<rparr>]
   \<and> acquisitions (snd (queryGeminiAPI ''p''
        (example_world Absent True empty_key_env (\<lambda>n. answer ''h1'')))) = 1"
  by (simp add: client_defs example_defs getCurrentAPIEndpoint_def Let_def)

text \<open>A query with the key \<^verbatim>\<open>k1\<close>, and one with no key and the token \<^verbatim>\<open>tok\<close>.\<close>

theorem endpoint_follows_truthiness_of_key_witness:
  "queryGeminiAPI ''p'' (example_world Absent True key_env (\<lambda>n. answer ''h1''))
   = (Inr ''h1'',
      (example_world Absent True key_env (\<lambda>n. answer ''h1''))
        \<lparr>requests := [\<lparr>req_url = key_endpoint key_env,
                       req_headers = [(''Content-Type'', ''application/json'')],
                       req_prompt = ''p''\<rparr>]\<rparr>)
   \<and> getCurrentAPIEndpoint key_env = ''API key based endpoint (generativelanguage.googleapis.com)''
   \<and> queryGeminiAPI ''p'' (example_world Absent True token_env (\<lambda>n. answer ''h1''))
   = (Inr ''h1'',
      (example_world Absent True token_env (\<lambda>n. answer ''h1''))
        \<lparr>tokenCache := Some \<lparr>token = ''tok'', timestamp = 0\<rparr>,
         acquisitions := 1,
         requests := [\<lparr>req_url = token_endpoint token_env,
                       req_headers = [(''Content-Type'', ''application/json''),
                                      (''Authorization'', ''Bearer tok'')],
                       req_prompt = ''p''\<rparr>]\<rparr>)
   \<and> getCurrentAPIEndpoint token_env = ''Access token based endpoint (aiplatform.googleapis.com)''
   \<and> key_endpoint key_env
     = ''https://generativelanguage.googleapis.com/v1beta/models/gemini-pro:generateContent?key=k1''
   \<and> token_endpoint token_env
     = ''https://us-central1-aiplatform.googleapis.com/v1/projects/p1/locations/us-central1/publishers/google/models/gemini-pro:generateContent''"
  using endpoint_follows_truthiness_of_key
      [of "example_world Absent True key_env (\<lambda>n. answer ''h1'')" "''p''"]
    endpoint_follows_truthiness_of_key
      [of "example_world Absent True token_env (\<lambda>n. answer ''h1'')" "''p''"]
  by (simp add: client_defs example_defs getCurrentAPIEndpoint_def Let_def key_endpoint_def
      token_endpoint_def interpolate_def)

subsection \<open>A rate-limited query\<close>

















subsection \<open>The highlight\<close>








subsection \<open>The default of the retries option\<close>

text \<open>
  C9, as the code has it. With \<open>retries\<close> absent or 0 the call runs exactly as with
  \<open>retries = 3\<close>: the counter ends between 0 and 3, and at 3 exactly when the descriptive
  error is thrown, so at most three attempts are made. A negative \<open>retries\<close> is taken as
  it is: the loop is not entered, and the descriptive error is thrown with no attempt
  made and the world unchanged, also through \<open>aiLocator\<close>. The loop bound is below 1
  exactly for a negative \<open>retries\<close>.
\<close>

theorem retries_default_and_zero_attempts:
  "((retries options = None \<or> retries options = Some 0) \<longrightarrow>
       getAiSelector_run pg d options w = getAiSelector_run pg d (options\<lparr>retries := Some 3\<rparr>) w
       \<and> (\<forall>res n w'. getAiSelector_run pg d options w = (res, n, w') \<longrightarrow>
             0 \<le> n \<and> n \<le> 3
             \<and> (n = 3) = (res = Inl (Error (''Failed to generate a valid selector for description: '' @ d)))))
   \<and> (\<forall>k. retries options = Some k \<and> k < 0 \<longrightarrow>
         getAiSelector_run pg d options w =
           (Inl (Error (''Failed to generate a valid selector for description: '' @ d)), 0, w)
         \<and> aiLocator pg d options w =
           (Inl (Error (''Failed to generate a valid selector for description: '' @ d)), w))
   \<and> ((maxRetries_of options \<le> 0) = (\<exists>k. retries options = Some k \<and> k < 0))"
proof (intro conjI allI impI)
  assume a: "retries options = None \<or> retries options = Some 0"
  then have m: "maxRetries_of options = 3" "maxRetries_of (options\<lparr>retries := Some 3\<rparr>) = 3"
    by (auto simp: maxRetries_of_def)
  show "getAiSelector_run pg d options w = getAiSelector_run pg d (options\<lparr>retries := Some 3\<rparr>) w"
    by (cases "loadCache (cache_file w)") (simp_all add: getAiSelector_run_def m)
  fix res n w'
  assume "getAiSelector_run pg d options w = (res, n, w')"
  from run_outcome[OF this] m(1)
  show "0 \<le> n" "n \<le> 3"
    "(n = 3) = (res = Inl (Error (''Failed to generate a valid selector for description: '' @ d)))"
    by auto
next
  fix k
  assume "retries options = Some k \<and> k < 0"
  then have "maxRetries_of options < 0" by (simp add: maxRetries_of_def)
  then show r: "getAiSelector_run pg d options w =
           (Inl (Error (''Failed to generate a valid selector for description: '' @ d)), 0, w)"
    by (cases "loadCache (cache_file w)")
       (simp_all add: getAiSelector_run_def getAiSelector_loop.simps loadCache_def
          split: sum.splits)
  show "aiLocator pg d options w =
           (Inl (Error (''Failed to generate a valid selector for description: '' @ d)), w)"
    by (simp add: aiLocator_def getAiSelector_def r)
next
  show "(maxRetries_of options \<le> 0) = (\<exists>k. retries options = Some k \<and> k < 0)"
    by (auto simp: maxRetries_of_def split: option.splits)
qed

text \<open>
  The claim as written (no option value requests a resolution of zero attempts) fails at
  \<open>retries = -1\<close>: the call throws at once, with the counter at 0 and no request sent, on a
  page and a model for which the default options resolve \<^verbatim>\<open>h1\<close>.
\<close>

theorem negative_retries_make_no_attempt:
  "getAiSelector_run example_page ''page header text'' (no_options\<lparr>retries := Some (- 1)\<rparr>)
     (example_world Absent True key_env (\<lambda>n. answer ''h1''))
   = (Inl (Error ''Failed to generate a valid selector for description: page header text''), 0,
       example_world Absent True key_env (\<lambda>n. answer ''h1''))
   \<and> aiLocator example_page ''page header text'' (no_options\<lparr>retries := Some (- 1)\<rparr>)
       (example_world Absent True key_env (\<lambda>n. answer ''h1''))
     = (Inl (Error ''Failed to generate a valid selector for description: page header text''),
        example_world Absent True key_env (\<lambda>n. answer ''h1''))
   \<and> fst (aiLocator example_page ''page header text'' no_options
            (example_world Absent True key_env (\<lambda>n. answer ''h1''))) = Inr ''h1''"
  by (simp add: aiLocator_def resolver_defs client_defs example_defs Let_def)

text \<open>With \<open>retries = 0\<close> and a model that always answers \<^verbatim>\<open>h2\<close>, three attempts are made.\<close>

theorem retries_default_and_zero_attempts_witness:
  "retries (no_options\<lparr>retries := Some 0\<rparr>) = Some 0
   \<and> fst (getAiSelector_run example_page ''moo'' (no_options\<lparr>retries := Some 0\<rparr>)
       (example_world Absent True key_env (\<lambda>n. answer ''h2'')))
     = Inl (Error ''Failed to generate a valid selector for description: moo'')
   \<and> fst (snd (getAiSelector_run example_page ''moo'' (no_options\<lparr>retries := Some 0\<rparr>)
       (example_world Absent True key_env (\<lambda>n. answer ''h2'')))) = 3
   \<and> length (requests (snd (snd (getAiSelector_run example_page ''moo'' (no_options\<lparr>retries := Some 0\<rparr>)
       (example_world Absent True key_env (\<lambda>n. answer ''h2'')))))) = 3"
  using retries_default_and_zero_attempts
    [of "no_options\<lparr>retries := Some 0\<rparr>" example_page "''moo''"
        "example_world Absent True key_env (\<lambda>n. answer ''h2'')"]
  by (simp add: resolver_defs client_defs example_defs Let_def)

subsection \<open>The timeout option\<close>

text \<open>
  C10. The resolver never reads \<^verbatim>\<open>options.timeout\<close>: for any two values of the option,
  with the page, the description, the other options and the world equal, the result and
  the world after the call (the cache file included) are equal.
\<close>

theorem timeout_option_is_inert:
  "getAiSelector pg d (options\<lparr>timeout := t1\<rparr>) w = getAiSelector pg d (options\<lparr>timeout := t2\<rparr>) w"
proof -
  have m: "maxRetries_of (options\<lparr>timeout := t1\<rparr>) = maxRetries_of (options\<lparr>timeout := t2\<rparr>)"
    by (simp add: maxRetries_of_def)
  have "getAiSelector_run pg d (options\<lparr>timeout := t1\<rparr>) w
      = getAiSelector_run pg d (options\<lparr>timeout := t2\<rparr>) w"
    by (cases "loadCache (cache_file w)") (simp_all add: getAiSelector_run_def m)
  then show ?thesis by (simp add: getAiSelector_def)
qed

end
